theory Spec2Isabelle
  imports Complex_Main
begin

section \<open>Numbers\<close>

text \<open>
  The analytics functions of the dashboard (\<^verbatim>\<open>usePriceHistory.ts\<close>, \<^verbatim>\<open>useBacktest.ts\<close>,
  \<^verbatim>\<open>usePortfolio.ts\<close>) compute on values of the TypeScript type \<^verbatim>\<open>number\<close>. A number is
  modelled as an exact real or one of the three special values of IEEE arithmetic: every
  operation on finite operands is exact (no rounding, no overflow), the two zeros are
  identified, and the special values behave as in the language: a division of a non-zero
  value by zero is an infinity, \<^verbatim>\<open>0 / 0\<close> and \<^verbatim>\<open>Infinity - Infinity\<close> are \<^verbatim>\<open>NaN\<close>,
  \<^verbatim>\<open>NaN\<close> is absorbing, and every comparison with \<^verbatim>\<open>NaN\<close> is false.
\<close>

datatype number = Fin real | PosInf | NegInf | NaN

fun finite_number :: "number \<Rightarrow> bool" where
  "finite_number (Fin r) = True"
| "finite_number PosInf = False"
| "finite_number NegInf = False"
| "finite_number NaN = False"

text \<open>The sign of a number that is not \<^verbatim>\<open>NaN\<close>, and the infinity of a given sign.\<close>

fun sign_of :: "number \<Rightarrow> real" where
  "sign_of (Fin r) = sgn r"
| "sign_of PosInf = 1"
| "sign_of NegInf = - 1"
| "sign_of NaN = 0"

definition inf_of_sign :: "real \<Rightarrow> number" where
  "inf_of_sign s = (if 0 < s then PosInf else if s < 0 then NegInf else NaN)"

instantiation number :: "{zero, one, plus, uminus, minus, times, inverse}"
begin

definition zero_number :: number where
  "zero_number = Fin 0"

definition one_number :: number where
  "one_number = Fin 1"

fun plus_number :: "number \<Rightarrow> number \<Rightarrow> number" where
  "plus_number NaN b = NaN"
| "plus_number a NaN = NaN"
| "plus_number (Fin x) (Fin y) = Fin (x + y)"
| "plus_number PosInf NegInf = NaN"
| "plus_number NegInf PosInf = NaN"
| "plus_number PosInf b = PosInf"
| "plus_number NegInf b = NegInf"
| "plus_number (Fin x) b = b"

fun uminus_number :: "number \<Rightarrow> number" where
  "uminus_number (Fin x) = Fin (- x)"
| "uminus_number PosInf = NegInf"
| "uminus_number NegInf = PosInf"
| "uminus_number NaN = NaN"

definition minus_number :: "number \<Rightarrow> number \<Rightarrow> number" where
  "minus_number a b = a + (- b)"

fun times_number :: "number \<Rightarrow> number \<Rightarrow> number" where
  "times_number NaN b = NaN"
| "times_number a NaN = NaN"
| "times_number (Fin x) (Fin y) = Fin (x * y)"
| "times_number a b = inf_of_sign (sign_of a * sign_of b)"

fun divide_number :: "number \<Rightarrow> number \<Rightarrow> number" where
  "divide_number NaN b = NaN"
| "divide_number a NaN = NaN"
| "divide_number (Fin x) (Fin y) = (if y = 0 then inf_of_sign (sgn x) else Fin (x / y))"
| "divide_number (Fin x) b = Fin 0"
| "divide_number a (Fin y) = inf_of_sign (sign_of a * (if y < 0 then - 1 else 1))"
| "divide_number a b = NaN"

definition inverse_number :: "number \<Rightarrow> number" where
  "inverse_number a = Fin 1 div a"

instance ..

end

text \<open>
  The comparisons \<^verbatim>\<open>>\<close>, \<^verbatim>\<open><\<close>, \<^verbatim>\<open>>=\<close>, \<^verbatim>\<open><=\<close> and the strict equality \<^verbatim>\<open>===\<close> on numbers.
\<close>

fun js_gt :: "number \<Rightarrow> number \<Rightarrow> bool" where
  "js_gt NaN b = False"
| "js_gt a NaN = False"
| "js_gt (Fin x) (Fin y) = (y < x)"
| "js_gt PosInf PosInf = False"
| "js_gt PosInf b = True"
| "js_gt a NegInf = (a \<noteq> NegInf)"
| "js_gt a b = False"

definition js_lt :: "number \<Rightarrow> number \<Rightarrow> bool" where
  "js_lt a b = js_gt b a"

definition js_eq :: "number \<Rightarrow> number \<Rightarrow> bool" where
  "js_eq a b = (a = b \<and> a \<noteq> NaN)"

definition js_ge :: "number \<Rightarrow> number \<Rightarrow> bool" where
  "js_ge a b = (js_gt a b \<or> js_eq a b)"

definition js_le :: "number \<Rightarrow> number \<Rightarrow> bool" where
  "js_le a b = js_ge b a"

text \<open>\<^verbatim>\<open>Math.sqrt\<close>, \<^verbatim>\<open>Math.pow\<close> with a natural exponent, \<^verbatim>\<open>Math.round\<close> (to the
  nearest integer, halves upwards), and the variadic \<^verbatim>\<open>Math.max\<close> and \<^verbatim>\<open>Math.min\<close>.\<close>

fun Math_sqrt :: "number \<Rightarrow> number" where
  "Math_sqrt (Fin x) = (if x < 0 then NaN else Fin (sqrt x))"
| "Math_sqrt PosInf = PosInf"
| "Math_sqrt NegInf = NaN"
| "Math_sqrt NaN = NaN"

primrec Math_pow :: "number \<Rightarrow> nat \<Rightarrow> number" where
  "Math_pow x 0 = Fin 1"
| "Math_pow x (Suc n) = x * Math_pow x n"


fun max2 :: "number \<Rightarrow> number \<Rightarrow> number" where
  "max2 NaN b = NaN"
| "max2 a NaN = NaN"
| "max2 a b = (if js_gt b a then b else a)"

fun min2 :: "number \<Rightarrow> number \<Rightarrow> number" where
  "min2 NaN b = NaN"
| "min2 a NaN = NaN"
| "min2 a b = (if js_gt a b then b else a)"

definition Math_max :: "number list \<Rightarrow> number" where
  "Math_max xs = foldl max2 NegInf xs"

definition Math_min :: "number list \<Rightarrow> number" where
  "Math_min xs = foldl min2 PosInf xs"

text \<open>\<^verbatim>\<open>xs.reduce((a, b) => a + b, 0)\<close>: the sum from the left, starting at zero.\<close>

definition sum_reduce :: "number list \<Rightarrow> number" where
  "sum_reduce xs = foldl (\<lambda>a b. a + b) (Fin 0) xs"

text \<open>\<^verbatim>\<open>xs.slice(-n)\<close>: the last \<open>n\<close> elements, and the whole array for \<open>n = 0\<close>
  (\<^verbatim>\<open>slice(-0)\<close> is \<^verbatim>\<open>slice(0)\<close>).\<close>

definition slice_last :: "'a list \<Rightarrow> nat \<Rightarrow> 'a list" where
  "slice_last xs n = (if n = 0 then xs else drop (length xs - n) xs)"

text \<open>\<^verbatim>\<open>xs.slice(a, b)\<close> for indices \<open>0 \<le> a\<close> and \<open>0 \<le> b\<close>.\<close>

definition slice :: "'a list \<Rightarrow> nat \<Rightarrow> nat \<Rightarrow> 'a list" where
  "slice xs a b = take (b - a) (drop a xs)"

section \<open>Point-in-time indicators\<close>

text \<open>A period is a count of bars, a natural number. A result of type
  \<^verbatim>\<open>number | undefined\<close> is a \<^typ>\<open>number option\<close>.\<close>

definition calculateSMA :: "number list \<Rightarrow> nat \<Rightarrow> number option" where
  "calculateSMA data period =
     (if length data < period then None
      else Some (sum_reduce (slice_last data period) / Fin (real period)))"

definition ema_step :: "number \<Rightarrow> number \<Rightarrow> number \<Rightarrow> number" where
  "ema_step multiplier x ema = (x - ema) * multiplier + ema"

definition calculateEMA :: "number list \<Rightarrow> nat \<Rightarrow> number option" where
  "calculateEMA data period =
     (if length data < period then None
      else
        let multiplier = Fin 2 / (Fin (real period) + Fin 1);
            ema0 = sum_reduce (slice data 0 period) / Fin (real period)
        in Some (fold (\<lambda>i ema. ema_step multiplier (data ! i) ema) [period..<length data] ema0))"

text \<open>
  \<^verbatim>\<open>calculateRSI\<close>. The first loop sums the gains and the losses of the first
  \<open>period\<close> changes; the second smooths the two averages over the remaining changes.
  Both loops are shared, statement for statement, with \<^verbatim>\<open>generateRSISeries\<close>.
\<close>

definition rsi_seed_step :: "number list \<Rightarrow> nat \<Rightarrow> number \<times> number \<Rightarrow> number \<times> number" where
  "rsi_seed_step data i gl =
     (let change = data ! i - data ! (i - 1)
      in if js_gt change (Fin 0) then (fst gl + change, snd gl) else (fst gl, snd gl - change))"

definition rsi_seed :: "number list \<Rightarrow> nat \<Rightarrow> number \<times> number" where
  "rsi_seed data period =
     (let gl = fold (rsi_seed_step data) [1..<Suc period] (Fin 0, Fin 0)
      in (fst gl / Fin (real period), snd gl / Fin (real period)))"

definition wilder_step :: "number list \<Rightarrow> nat \<Rightarrow> nat \<Rightarrow> number \<times> number \<Rightarrow> number \<times> number" where
  "wilder_step data period i avgs =
     (let change = data ! i - data ! (i - 1);
          avgGain = fst avgs;
          avgLoss = snd avgs
      in if js_gt change (Fin 0)
         then ((avgGain * Fin (real period - 1) + change) / Fin (real period),
               (avgLoss * Fin (real period - 1)) / Fin (real period))
         else ((avgGain * Fin (real period - 1)) / Fin (real period),
               (avgLoss * Fin (real period - 1) - change) / Fin (real period)))"

definition rsi_averages :: "number list \<Rightarrow> nat \<Rightarrow> number \<times> number" where
  "rsi_averages data period =
     fold (wilder_step data period) [Suc period..<length data] (rsi_seed data period)"

definition calculateRSI :: "number list \<Rightarrow> nat \<Rightarrow> number option" where
  "calculateRSI data period =
     (if length data < period + 1 then None
      else
        let avgs = rsi_averages data period;
            avgGain = fst avgs;
            avgLoss = snd avgs
        in if js_eq avgLoss (Fin 0) then Some (Fin 100)
           else let rs = avgGain / avgLoss in Some (Fin 100 - Fin 100 / (Fin 1 + rs)))"

text \<open>\<^verbatim>\<open>a || b\<close> for \<open>a\<close> of type \<^verbatim>\<open>number | undefined\<close>: \<open>b\<close> when \<open>a\<close> is
  \<^verbatim>\<open>undefined\<close>, zero or \<^verbatim>\<open>NaN\<close>.\<close>

definition or_else :: "number option \<Rightarrow> number \<Rightarrow> number" where
  "or_else a b = (case a of None \<Rightarrow> b | Some x \<Rightarrow> if x = Fin 0 \<or> x = NaN then b else x)"

record macd_result =
  macd :: number
  signal :: number
  histogram :: number

definition macd_step :: "number list \<Rightarrow> nat \<Rightarrow> number \<times> number \<times> number list \<Rightarrow> number \<times> number \<times> number list" where
  "macd_step data i st =
     (let ema12Running = ema_step (Fin 2 / Fin 13) (data ! i) (fst st);
          ema26Running = ema_step (Fin 2 / Fin 27) (data ! i) (fst (snd st))
      in (ema12Running, ema26Running, snd (snd st) @ [ema12Running - ema26Running]))"

definition macd_values :: "number list \<Rightarrow> number list" where
  "macd_values data =
     snd (snd (fold (macd_step data) [26..<length data]
       (sum_reduce (slice data 0 12) / Fin 12, sum_reduce (slice data 0 26) / Fin 26, [])))"

definition calculateMACD :: "number list \<Rightarrow> macd_result option" where
  "calculateMACD data =
     (case calculateEMA data 12 of
        None \<Rightarrow> None
      | Some ema12 \<Rightarrow>
          (case calculateEMA data 26 of
             None \<Rightarrow> None
           | Some ema26 \<Rightarrow>
               let macdValues = macd_values data;
                   macdLine = ema12 - ema26;
                   signalLine = or_else (calculateEMA macdValues 9) macdLine
               in Some \<lparr>macd = macdLine, signal = signalLine, histogram = macdLine - signalLine\<rparr>))"

section \<open>Indicator series\<close>

record PriceBar =
  timestamp :: string
  open_price :: number
  high :: number
  low :: number
  close :: number
  volume :: number

record 'v point =
  time :: string
  pvalue :: 'v

text \<open>\<^verbatim>\<open>timestamp.split('T')[0]\<close>: the characters before the first \<^verbatim>\<open>T\<close>.\<close>

definition date_part :: "string \<Rightarrow> string" where
  "date_part ts = takeWhile (\<lambda>c. c \<noteq> CHR ''T'') ts"

datatype indicator_type = SMA | EMA

datatype error = TypeError

text \<open>\<^verbatim>\<open>calculateEMAForSeries\<close> starts from \<^verbatim>\<open>data[0]\<close>, which is \<^verbatim>\<open>undefined\<close> for an
  empty array; the loop then does not run and the function returns \<^verbatim>\<open>undefined\<close>.\<close>

definition calculateEMAForSeries :: "number list \<Rightarrow> nat \<Rightarrow> number option" where
  "calculateEMAForSeries data period =
     (let multiplier = Fin 2 / (Fin (real period) + Fin 1)
      in case data of
           [] \<Rightarrow> None
         | d0 # rest \<Rightarrow> Some (fold (\<lambda>i ema. ema_step multiplier (data ! i) ema) [1..<length data] d0))"

text \<open>\<^verbatim>\<open>generateIndicatorSeries\<close>. The loop starts at \<^verbatim>\<open>period - 1\<close>; for a period of
  zero that is index \<open>-1\<close>, whose bar is \<^verbatim>\<open>undefined\<close>, and reading its timestamp throws.\<close>

definition indicator_point :: "PriceBar list \<Rightarrow> nat \<Rightarrow> indicator_type \<Rightarrow> nat \<Rightarrow> number option point" where
  "indicator_point bars period type i =
     (let closes = map close bars;
          sl = slice closes (i + 1 - period) (i + 1);
          v = (case type of
                 SMA \<Rightarrow> Some (sum_reduce sl / Fin (real period))
               | EMA \<Rightarrow> calculateEMAForSeries sl period)
      in \<lparr>time = date_part (timestamp (bars ! i)), pvalue = v\<rparr>)"

definition generateIndicatorSeries :: "PriceBar list \<Rightarrow> nat \<Rightarrow> indicator_type \<Rightarrow> error + number option point list" where
  "generateIndicatorSeries bars period type =
     (if period = 0 then Inl TypeError
      else Inr (map (indicator_point bars period type) [period - 1..<length bars]))"

text \<open>\<^verbatim>\<open>generateRSISeries\<close>: one point from the seed averages, then one per further bar.\<close>

definition rsi_point :: "PriceBar list \<Rightarrow> nat \<Rightarrow> number \<times> number \<Rightarrow> number point" where
  "rsi_point bars i avgs =
     (let rs = (if js_eq (snd avgs) (Fin 0) then Fin 100 else fst avgs / snd avgs)
      in \<lparr>time = date_part (timestamp (bars ! i)), pvalue = Fin 100 - Fin 100 / (Fin 1 + rs)\<rparr>)"

fun rsi_series_loop :: "PriceBar list \<Rightarrow> nat \<Rightarrow> nat list \<Rightarrow> number \<times> number \<Rightarrow> number point list" where
  "rsi_series_loop bars period [] avgs = []"
| "rsi_series_loop bars period (i # is) avgs =
     (let avgs' = wilder_step (map close bars) period i avgs
      in rsi_point bars i avgs' # rsi_series_loop bars period is avgs')"

definition generateRSISeries :: "PriceBar list \<Rightarrow> nat \<Rightarrow> number point list" where
  "generateRSISeries bars period =
     (let closes = map close bars
      in if length closes < period + 1 then []
         else
           let avgs = rsi_seed closes period
           in rsi_point bars period avgs
              # rsi_series_loop bars period [Suc period..<length closes] avgs)"

section \<open>Backtest analytics\<close>

record EquityPoint =
  date :: string
  equity :: number
  benchmark :: "number option"
  drawdown :: "number option"

text \<open>\<^verbatim>\<open>calculateDrawdownSeries\<close>: the callback of \<^verbatim>\<open>map\<close> updates the running peak,
  which is the state of the recursion.\<close>

fun drawdown_loop :: "number \<Rightarrow> EquityPoint list \<Rightarrow> EquityPoint list" where
  "drawdown_loop peak [] = []"
| "drawdown_loop peak (point # rest) =
     (let peak' = (if js_gt (equity point) peak then equity point else peak);
          dd = ((equity point - peak') / peak') * Fin 100
      in point\<lparr>drawdown := Some dd\<rparr> # drawdown_loop peak' rest)"

definition calculateDrawdownSeries :: "EquityPoint list \<Rightarrow> EquityPoint list" where
  "calculateDrawdownSeries equityCurve =
     (case equityCurve of
        [] \<Rightarrow> []
      | first # rest \<Rightarrow> drawdown_loop (equity first) equityCurve)"

record rolling_metric =
  metric_date :: string
  sharpe :: number
  volatility :: number

text \<open>\<^verbatim>\<open>calculateRollingMetrics\<close>: \<^verbatim>\<open>slice.slice(1).map((p, idx) => ...)\<close> pairs each point
  of the window but the first with its predecessor.\<close>

definition window_returns :: "EquityPoint list \<Rightarrow> number list" where
  "window_returns sl = map (\<lambda>(p, q). (equity p - equity q) / equity q) (zip (drop 1 sl) sl)"

definition rolling_entry :: "EquityPoint list \<Rightarrow> nat \<Rightarrow> nat \<Rightarrow> rolling_metric" where
  "rolling_entry equityCurve window i =
     (let returns = window_returns (slice equityCurve (i - window) i);
          avgReturn = sum_reduce returns / Fin (real (length returns));
          variance = foldl (\<lambda>sum r. sum + Math_pow (r - avgReturn) 2) (Fin 0) returns
                       / Fin (real (length returns));
          vol = Math_sqrt variance * Math_sqrt (Fin 252) * Fin 100;
          sh = (if js_gt vol (Fin 0) then (avgReturn * Fin 252) / (vol / Fin 100) else Fin 0)
      in \<lparr>metric_date = date (equityCurve ! i), sharpe = sh, volatility = vol\<rparr>)"

definition calculateRollingMetrics :: "EquityPoint list \<Rightarrow> nat \<Rightarrow> rolling_metric list" where
  "calculateRollingMetrics equityCurve window =
     (if length equityCurve < window then []
      else map (rolling_entry equityCurve window) [window..<length equityCurve])"

datatype trade_side = Long | Short

datatype trade_status = Open | Closed

record Trade =
  trade_id :: string
  symbol :: string
  entryDate :: string
  entryPrice :: number
  exitDate :: "string option"
  exitPrice :: "number option"
  quantity :: number
  side :: trade_side
  pnl :: "number option"
  pnlPercent :: "number option"
  status :: trade_status

record histogram_bin =
  range_label :: string
  count :: nat
  isPositive :: bool

record trade_distribution =
  bins :: "histogram_bin list"
  winRate :: number
  avgWin :: number
  avgLoss :: number

text \<open>\<^verbatim>\<open>analyzeTradeDistribution\<close>. The label of a bin is printed by the built-in
  \<^verbatim>\<open>Number.prototype.toFixed\<close>, a parameter of the model.\<close>

definition pnl_or_zero :: "Trade \<Rightarrow> number" where
  "pnl_or_zero t = or_else (pnlPercent t) (Fin 0)"

definition mean_pnl :: "Trade list \<Rightarrow> number" where
  "mean_pnl ts =
     (if length ts > 0
      then foldl (\<lambda>sum t. sum + pnl_or_zero t) (Fin 0) ts / Fin (real (length ts))
      else Fin 0)"

definition make_bin :: "(number \<Rightarrow> nat \<Rightarrow> string) \<Rightarrow> number list \<Rightarrow> number \<Rightarrow> number \<Rightarrow> nat \<Rightarrow> histogram_bin" where
  "make_bin toFixed pnls mn binSize i =
     (let start = mn + Fin (real i) * binSize;
          bin_end = start + binSize
      in \<lparr>range_label = toFixed start 1 @ ''%'',
          count = length (filter (\<lambda>p. js_ge p start \<and> js_lt p bin_end) pnls),
          isPositive = js_ge start (Fin 0)\<rparr>)"

definition analyzeTradeDistribution :: "(number \<Rightarrow> nat \<Rightarrow> string) \<Rightarrow> Trade list \<Rightarrow> trade_distribution" where
  "analyzeTradeDistribution toFixed trades =
     (let closedTrades = filter (\<lambda>t. status t = Closed \<and> pnlPercent t \<noteq> None) trades
      in if length closedTrades = 0
         then \<lparr>bins = [], winRate = Fin 0, avgWin = Fin 0, avgLoss = Fin 0\<rparr>
         else
           let winners = filter (\<lambda>t. js_gt (pnl_or_zero t) (Fin 0)) closedTrades;
               losers = filter (\<lambda>t. js_le (pnl_or_zero t) (Fin 0)) closedTrades;
               pnls = map pnl_or_zero closedTrades;
               mn = Math_min pnls;
               mx = Math_max pnls;
               binCount = 20;
               binSize = (mx - mn) / Fin (real binCount)
           in \<lparr>bins = map (make_bin toFixed pnls mn binSize) [0..<binCount],
               winRate = (Fin (real (length winners)) / Fin (real (length closedTrades))) * Fin 100,
               avgWin = mean_pnl winners,
               avgLoss = mean_pnl losers\<rparr>)"

record BacktestMetrics =
  totalReturn :: number
  annualizedReturn :: number
  sharpeRatio :: number
  sortinoRatio :: number
  maxDrawdown :: number
  metrics_winRate :: number
  profitFactor :: number
  totalTrades :: number
  winningTrades :: number
  losingTrades :: number
  metrics_avgWin :: number
  metrics_avgLoss :: number
  avgHoldingPeriod :: number

datatype backtest_status = Pending | Running | Completed | Failed

record BacktestResult =
  result_id :: string
  strategyName :: string
  result_symbol :: string
  startDate :: string
  endDate :: string
  initialCapital :: number
  finalValue :: number
  metrics :: BacktestMetrics
  equityCurve :: "EquityPoint list"
  trades :: "Trade list"
  result_status :: backtest_status










section \<open>Portfolio metrics\<close>

text \<open>The two functions of \<^verbatim>\<open>usePortfolio.ts\<close> take arrays of
  \<^verbatim>\<open>{ marketValue: number; unrealizedPnL: number }\<close> and of \<^verbatim>\<open>{ allocation: number }\<close>.\<close>

record valued_position =
  marketValue :: number
  unrealizedPnL :: number


record portfolio_metrics =
  totalValue :: number
  totalPnL :: number
  totalPnLPercent :: number

definition calculatePortfolioMetrics :: "valued_position list \<Rightarrow> portfolio_metrics" where
  "calculatePortfolioMetrics positions =
     (let tv = foldl (\<lambda>sum p. sum + marketValue p) (Fin 0) positions;
          tp = foldl (\<lambda>sum p. sum + unrealizedPnL p) (Fin 0) positions;
          pct = (if js_gt tv (Fin 0) then (tp / (tv - tp)) * Fin 100 else Fin 0)
      in \<lparr>totalValue = tv, totalPnL = tp, totalPnLPercent = pct\<rparr>)"


section \<open>Inputs used in the examples\<close>

text \<open>The closes \<open>a, a + d, a + 2 d, \<dots>\<close> (\<open>n\<close> of them), and a bar whose four prices
  are the same close.\<close>

definition linear_closes :: "real \<Rightarrow> real \<Rightarrow> nat \<Rightarrow> number list" where
  "linear_closes a d n = map (\<lambda>i. Fin (a + d * real i)) [0..<n]"

definition flat_bar :: "string \<Rightarrow> number \<Rightarrow> PriceBar" where
  "flat_bar ts c =
     \<lparr>timestamp = ts, open_price = c, high = c, low = c, close = c, volume = Fin 0\<rparr>"

text \<open>\<^verbatim>\<open>a > b\<close> for two results of type \<^verbatim>\<open>number | undefined\<close>: false as soon as one of
  them is \<^verbatim>\<open>undefined\<close>.\<close>

definition opt_gt :: "number option \<Rightarrow> number option \<Rightarrow> bool" where
  "opt_gt a b = (case a of None \<Rightarrow> False | Some x \<Rightarrow> (case b of None \<Rightarrow> False | Some y \<Rightarrow> js_gt x y))"

text \<open>The exponential recurrence walked once over a list of closes, from a given start,
  and the EMA of a window that starts from the first close of the window.\<close>

fun ema_from :: "number \<Rightarrow> number \<Rightarrow> number list \<Rightarrow> number" where
  "ema_from m e [] = e"
| "ema_from m e (x # xs) = ema_from m (ema_step m x e) xs"

definition windowed_ema :: "nat \<Rightarrow> number list \<Rightarrow> number option" where
  "windowed_ema p w =
     (case w of [] \<Rightarrow> None | x # xs \<Rightarrow> Some (ema_from (Fin 2 / (Fin (real p) + Fin 1)) x xs))"

definition bars3 :: "PriceBar list" where
  "bars3 =
     [flat_bar ''2024-01-02T09:30:00Z'' (Fin 1),
      flat_bar ''2024-01-03T09:30:00Z'' (Fin 2),
      flat_bar ''2024-01-04T09:30:00Z'' (Fin 6)]"

text \<open>The closes 1, 2, \<dots>, 26.\<close>

definition closes_1_to_26 :: "real list" where
  "closes_1_to_26 = map (\<lambda>i. 1 + real i) [0..<26]"

text \<open>An equity point with a finite equity and no benchmark, and the equity curve
  100, 110, 100, 105, 120 of the specification.\<close>

definition equity_point :: "string \<Rightarrow> real \<Rightarrow> EquityPoint" where
  "equity_point d e = \<lparr>date = d, equity = Fin e, benchmark = None, drawdown = None\<rparr>"

definition curve5 :: "EquityPoint list" where
  "curve5 =
     [equity_point ''2023-01-01'' 100, equity_point ''2023-01-02'' 110,
      equity_point ''2023-01-03'' 100, equity_point ''2023-01-04'' 105,
      equity_point ''2023-01-05'' 120]"





text \<open>The mean, the population standard deviation (the sum of the squared deviations
  divided by the number of values) and the simple returns of consecutive values, as the
  specification names them.\<close>

definition mean :: "number list \<Rightarrow> number" where
  "mean xs = sum_reduce xs / Fin (real (length xs))"

definition population_stddev :: "number list \<Rightarrow> number" where
  "population_stddev xs =
     Math_sqrt (sum_reduce (map (\<lambda>x. Math_pow (x - mean xs) 2) xs) / Fin (real (length xs)))"

fun simple_returns :: "number list \<Rightarrow> number list" where
  "simple_returns (a # b # rest) = (b - a) / a # simple_returns (b # rest)"
| "simple_returns es = []"

text \<open>The equity curve 100, 110, 121, and a closed long trade with a given P&L percent.\<close>

definition curve3 :: "EquityPoint list" where
  "curve3 =
     [equity_point ''2023-01-01'' 100, equity_point ''2023-01-02'' 110,
      equity_point ''2023-01-03'' 121]"

definition closed_trade :: "string \<Rightarrow> real \<Rightarrow> Trade" where
  "closed_trade n p =
     \<lparr>trade_id = n, symbol = ''AAPL'', entryDate = ''2023-01-01'', entryPrice = Fin 100,
      exitDate = Some ''2023-01-10'', exitPrice = Some (Fin (100 + p)), quantity = Fin 10,
      side = Long, pnl = Some (Fin (10 * p)), pnlPercent = Some (Fin p), status = Closed\<rparr>"

section \<open>Arithmetic on finite numbers\<close>

lemma Fin_minus [simp]: "Fin a - Fin b = Fin (a - b)"
  by (simp add: minus_number_def)

lemma foldl_plus_Fin: "foldl (\<lambda>a b. a + b) (Fin a) (map Fin rs) = Fin (a + sum_list rs)"
  by (induction rs arbitrary: a) (simp_all add: add.assoc)

lemma sum_reduce_Fin: "sum_reduce (map Fin rs) = Fin (sum_list rs)"
  by (simp add: sum_reduce_def foldl_plus_Fin)

lemma ema_step_Fin: "ema_step (Fin m) (Fin x) (Fin e) = Fin ((x - e) * m + e)"
  by (simp add: ema_step_def)

section \<open>Moving averages of a linear series\<close>

lemma sum_list_linear:
  "sum_list (map (\<lambda>i. a + d * real i) [m..<m + p])
     = real p * a + d * (real p * real m + real p * (real p - 1) / 2)"
proof (induction p)
  case 0
  show ?case by simp
next
  case (Suc p)
  have "[m..<m + Suc p] = [m..<m + p] @ [m + p]" by simp
  then show ?case using Suc by (simp add: field_simps)
qed

lemma sum_reduce_linear:
  "sum_reduce (map (\<lambda>i. Fin (a + d * real i)) [m..<m + p])
     = Fin (real p * a + d * (real p * real m + real p * (real p - 1) / 2))"
proof -
  have "map (\<lambda>i. Fin (a + d * real i)) [m..<m + p] = map Fin (map (\<lambda>i. a + d * real i) [m..<m + p])"
    by simp
  then show ?thesis by (simp only: sum_reduce_Fin sum_list_linear)
qed

lemma linear_closes_nth: "i < n \<Longrightarrow> linear_closes a d n ! i = Fin (a + d * real i)"
  by (simp add: linear_closes_def)

lemma length_linear_closes [simp]: "length (linear_closes a d n) = n"
  by (simp add: linear_closes_def)

lemma calculateSMA_linear:
  assumes "0 < p" "p \<le> n"
  shows "calculateSMA (linear_closes a d n) p = Some (Fin (a + d * (real n - 1) - d * (real p - 1) / 2))"
proof -
  have "slice_last (linear_closes a d n) p = map (\<lambda>i. Fin (a + d * real i)) [n - p..<(n - p) + p]"
    using assms by (simp add: slice_last_def linear_closes_def drop_map)
  then have "sum_reduce (slice_last (linear_closes a d n) p)
      = Fin (real p * a + d * (real p * real (n - p) + real p * (real p - 1) / 2))"
    by (simp only: sum_reduce_linear)
  moreover have "(real p * a + d * (real p * real (n - p) + real p * (real p - 1) / 2)) / real p
      = a + d * (real n - 1) - d * (real p - 1) / 2"
    using assms by (simp add: field_simps)
  ultimately show ?thesis using assms by (simp add: calculateSMA_def)
qed

text \<open>The lag \<open>d (p - 1) / 2\<close> of the seed, the average of the first \<open>p\<close> closes, is a fixed
  point of the recurrence: the running value stays that far behind the last close.\<close>

lemma ema_fold_linear:
  assumes "0 < p" "p \<le> k" "k \<le> n"
  shows "fold (\<lambda>i ema. ema_step (Fin (2 / (real p + 1))) (linear_closes a d n ! i) ema) [p..<k]
           (Fin (a + d * (real p - 1) - d * (real p - 1) / 2))
         = Fin (a + d * (real k - 1) - d * (real p - 1) / 2)"
  using assms(2,3)
proof (induction k)
  case 0
  then show ?case using assms(1) by simp
next
  case (Suc k)
  show ?case
  proof (cases "p \<le> k")
    case True
    have nth: "linear_closes a d n ! k = Fin (a + d * real k)"
      using Suc.prems by (simp add: linear_closes_nth)
    have "((a + d * real k) - (a + d * (real k - 1) - d * (real p - 1) / 2)) * (2 / (real p + 1))
          + (a + d * (real k - 1) - d * (real p - 1) / 2)
        = a + d * real k - d * (real p - 1) / 2"
      using assms(1) by (simp add: field_simps)
    then show ?thesis
      using True Suc nth by (simp add: ema_step_Fin)
  next
    case False
    then have "p = Suc k" using Suc.prems by simp
    then show ?thesis by simp
  qed
qed

lemma calculateEMA_linear:
  assumes "0 < p" "p \<le> n"
  shows "calculateEMA (linear_closes a d n) p = Some (Fin (a + d * (real n - 1) - d * (real p - 1) / 2))"
proof -
  have "take p (linear_closes a d n) = map (\<lambda>i. Fin (a + d * real i)) [0..<0 + p]"
    using assms by (simp add: linear_closes_def take_map)
  then have "sum_reduce (slice (linear_closes a d n) 0 p)
      = Fin (real p * a + d * (real p * real (0::nat) + real p * (real p - 1) / 2))"
    by (simp only: slice_def sum_reduce_linear drop_0 minus_nat.diff_0)
  moreover have "(real p * a + d * (real p * real (0::nat) + real p * (real p - 1) / 2)) / real p
      = a + d * (real p - 1) - d * (real p - 1) / 2"
    using assms by (simp add: field_simps)
  ultimately have seed: "sum_reduce (slice (linear_closes a d n) 0 p) / Fin (real p)
      = Fin (a + d * (real p - 1) - d * (real p - 1) / 2)"
    using assms by simp
  have mult: "Fin 2 / (Fin (real p) + Fin 1) = Fin (2 / (real p + 1))"
    by simp
  show ?thesis
    using assms ema_fold_linear [OF assms(1) assms(2) order_refl, of a d]
    by (simp add: calculateEMA_def Let_def seed mult)
qed

text \<open>
  C10, as the code has it: on the 252 closes 100, 100.5, 101, \<dots> the 12-period
  \<^verbatim>\<open>calculateEMA\<close> and the 12-period \<^verbatim>\<open>calculateSMA\<close> are the same number, 222.75. The
  seed of the EMA is the average of the first 12 closes, and on a linear series the
  recurrence keeps the EMA at the average of the trailing 12 closes.
\<close>

theorem C10_ema_equals_sma_on_linear_closes:
  "calculateEMA (linear_closes 100 (1 / 2) 252) 12 = Some (Fin (891 / 4))
   \<and> calculateSMA (linear_closes 100 (1 / 2) 252) 12 = Some (Fin (891 / 4))"
  by (simp add: calculateEMA_linear calculateSMA_linear)

text \<open>
  C10, as the specification states it (\<^verbatim>\<open>calculateEMA(closes, 12) > calculateSMA(closes, 12)\<close>
  on that series), does not hold.
\<close>

theorem C10_counterexample:
  "\<not> opt_gt (calculateEMA (linear_closes 100 (1 / 2) 252) 12)
            (calculateSMA (linear_closes 100 (1 / 2) 252) 12)"
  by (simp add: calculateEMA_linear calculateSMA_linear opt_gt_def)

text \<open>
  C1 at 16 strictly increasing closes 1, 2, \<dots>, 16 with the period 14: the smoothed
  average loss is zero and \<^verbatim>\<open>calculateRSI\<close> returns 100, but the two points that
  \<^verbatim>\<open>generateRSISeries\<close> emits (the seed point and the one smoothed point) are
  \<open>100 - 100 / 101\<close>, because the series sets the ratio \<^verbatim>\<open>rs\<close>, not the reading, to 100
  when the average loss is zero.
\<close>

theorem C1_rsi_series_zero_loss:
  "rsi_averages (linear_closes 1 1 16) 14 = (Fin 1, Fin 0)
   \<and> calculateRSI (linear_closes 1 1 16) 14 = Some (Fin 100)
   \<and> map pvalue (generateRSISeries
        (map (flat_bar ''2024-01-02T00:00:00Z'') (linear_closes 1 1 16)) 14)
      = [Fin (10000 / 101), Fin (10000 / 101)]"
  by code_simp

section \<open>The EMA series\<close>

lemma fold_nth_upt:
  assumes "a \<le> length xs"
  shows "fold (\<lambda>i. f (xs ! i)) [a..<length xs] s = fold f (drop a xs) s"
proof -
  have "map (\<lambda>i. xs ! i) [a..<length xs] = drop a xs"
    by (rule nth_equalityI) simp_all
  then have "fold f (drop a xs) s = fold f (map (\<lambda>i. xs ! i) [a..<length xs]) s" by simp
  also have "\<dots> = fold (\<lambda>i. f (xs ! i)) [a..<length xs] s"
    by (simp add: fold_map comp_def)
  finally show ?thesis by simp
qed

lemma ema_from_fold: "ema_from m e xs = fold (ema_step m) xs e"
  by (induction xs arbitrary: e) simp_all

lemma calculateEMAForSeries_windowed: "calculateEMAForSeries w p = windowed_ema p w"
proof (cases w)
  case Nil
  then show ?thesis by (simp add: calculateEMAForSeries_def windowed_ema_def)
next
  case (Cons x xs)
  have "fold (\<lambda>i. ema_step m (w ! i)) [1..<length w] x = fold (ema_step m) (drop 1 w) x" for m
    using Cons by (intro fold_nth_upt) simp
  then show ?thesis using Cons
    by (simp add: calculateEMAForSeries_def windowed_ema_def ema_from_fold)
qed

text \<open>
  C2, as the code has it: for a period \<open>p \<ge> 1\<close> and at least \<open>p\<close> bars,
  \<^verbatim>\<open>generateIndicatorSeries(bars, p, 'ema')\<close> has one point per bar from bar \<open>p - 1\<close> on,
  dated by that bar, and the value of the point of bar \<open>k + p - 1\<close> is the recurrence
  \<open>ema\<^sub>i = (x\<^sub>i - ema\<^sub>i\<^sub>-\<^sub>1) * (2 / (p + 1)) + ema\<^sub>i\<^sub>-\<^sub>1\<close> walked over the trailing window of \<open>p\<close>
  closes only, started from the first close of that window (no average seed, no history
  before the window).
\<close>

theorem C2_ema_series_windowed:
  assumes "0 < p" and "p \<le> length bars"
  shows "generateIndicatorSeries bars p EMA =
           Inr (map (\<lambda>k. \<lparr>time = date_part (timestamp (bars ! (k + p - 1))),
                          pvalue = windowed_ema p (take p (drop k (map close bars)))\<rparr>)
                    [0..<length bars - p + 1])"
proof -
  have "length bars - p + 1 + (p - 1) = length bars"
    using assms by simp
  then have idx: "[p - 1..<length bars] = map (\<lambda>k. k + (p - 1)) [0..<length bars - p + 1]"
    using map_add_upt [of "p - 1" "length bars - p + 1"] by (simp only:)
  have pt: "indicator_point bars p EMA (k + (p - 1)) =
              \<lparr>time = date_part (timestamp (bars ! (k + p - 1))),
                pvalue = windowed_ema p (take p (drop k (map close bars)))\<rparr>" for k
    using assms by (simp add: indicator_point_def slice_def calculateEMAForSeries_windowed Let_def)
  have "map (indicator_point bars p EMA) [p - 1..<length bars]
          = map (\<lambda>k. indicator_point bars p EMA (k + (p - 1))) [0..<length bars - p + 1]"
    by (simp only: idx map_map comp_def)
  then have pts: "map (indicator_point bars p EMA) [p - 1..<length bars]
          = map (\<lambda>k. \<lparr>time = date_part (timestamp (bars ! (k + p - 1))),
                          pvalue = windowed_ema p (take p (drop k (map close bars)))\<rparr>)
                [0..<length bars - p + 1]"
    by (simp only: pt)
  have "generateIndicatorSeries bars p EMA = Inr (map (indicator_point bars p EMA) [p - 1..<length bars])"
    using assms(1) by (simp add: generateIndicatorSeries_def)
  then show ?thesis by (simp only: pts)
qed

text \<open>C2 on three bars with the closes 1, 2, 6 and the period 2: the two windows are
  \<open>[1, 2]\<close> and \<open>[2, 6]\<close>.\<close>

theorem C2_ema_series_windowed_witness:
  "generateIndicatorSeries bars3 2 EMA =
     Inr [\<lparr>time = ''2024-01-03'', pvalue = Some (Fin (5 / 3))\<rparr>,
          \<lparr>time = ''2024-01-04'', pvalue = Some (Fin (14 / 3))\<rparr>]"
proof -
  have h1: "0 < (2::nat)" by simp
  have h2: "2 \<le> length bars3" by (simp add: bars3_def)
  show ?thesis
    unfolding C2_ema_series_windowed [OF h1 h2]
    by (simp add: bars3_def flat_bar_def date_part_def windowed_ema_def ema_step_def upt_rec)
qed

text \<open>
  C2, as the specification states it, fails on the same three bars: the last point of the
  series is \<open>14 / 3\<close>, but \<^verbatim>\<open>calculateEMA\<close> over the three closes is \<open>9 / 2\<close>; and the
  first point is \<open>5 / 3\<close>, but \<^verbatim>\<open>calculateEMA\<close> over the closes up to that bar is \<open>3 / 2\<close>.
\<close>

theorem C2_counterexample:
  "generateIndicatorSeries bars3 2 EMA =
     Inr [\<lparr>time = ''2024-01-03'', pvalue = Some (Fin (5 / 3))\<rparr>,
          \<lparr>time = ''2024-01-04'', pvalue = Some (Fin (14 / 3))\<rparr>]
   \<and> calculateEMA (map close bars3) 2 = Some (Fin (9 / 2))
   \<and> calculateEMA (take 2 (map close bars3)) 2 = Some (Fin (3 / 2))"
  by code_simp

section \<open>MACD on a short history\<close>

lemma fold_ema_step_finite: "\<exists>e'. fold (ema_step (Fin m)) (map Fin rs) (Fin e) = Fin e'"
  by (induction rs arbitrary: e) (simp_all add: ema_step_Fin)

lemma calculateEMA_drop:
  "calculateEMA data p =
     (if length data < p then None
      else Some (fold (ema_step (Fin 2 / (Fin (real p) + Fin 1))) (drop p data)
                   (sum_reduce (take p data) / Fin (real p))))"
  by (simp add: calculateEMA_def Let_def slice_def fold_nth_upt)

lemma calculateEMA_finite:
  assumes "0 < p" and "p \<le> length rs"
  shows "\<exists>e. calculateEMA (map Fin rs) p = Some (Fin e)"
proof -
  have seed: "sum_reduce (take p (map Fin rs)) / Fin (real p) = Fin (sum_list (take p rs) / real p)"
    using assms(1) by (simp add: take_map sum_reduce_Fin)
  have mult: "Fin 2 / (Fin (real p) + Fin 1) = Fin (2 / (real p + 1))"
    by simp
  obtain e where "fold (ema_step (Fin (2 / (real p + 1)))) (map Fin (drop p rs))
                    (Fin (sum_list (take p rs) / real p)) = Fin e"
    using fold_ema_step_finite by blast
  then show ?thesis
    using assms(2) by (simp add: calculateEMA_drop seed mult drop_map)
qed

lemma length_fold_macd_step:
  "length (snd (snd (fold (macd_step data) idxs st))) = length (snd (snd st)) + length idxs"
  by (induction idxs arbitrary: st) (simp_all add: macd_step_def Let_def)

lemma length_macd_values: "length (macd_values data) = length data - 26"
  by (simp add: macd_values_def length_fold_macd_step)

text \<open>
  C3, as the code has it: for finite closes, at least 26 and fewer than 35 of them,
  \<^verbatim>\<open>calculateMACD\<close> returns a record, not absence; fewer than 9 MACD values exist, the
  9-period EMA of them is \<^verbatim>\<open>undefined\<close>, and the fallback \<^verbatim>\<open>|| macdLine\<close> makes the signal
  the MACD line itself (the 12-period EMA minus the 26-period EMA) and the histogram 0.
\<close>

theorem C3_macd_short_history:
  assumes "26 \<le> length closes" and "length closes < 35"
  shows "\<exists>e12 e26.
           calculateEMA (map Fin closes) 12 = Some (Fin e12)
           \<and> calculateEMA (map Fin closes) 26 = Some (Fin e26)
           \<and> calculateMACD (map Fin closes)
               = Some \<lparr>macd = Fin (e12 - e26), signal = Fin (e12 - e26), histogram = Fin 0\<rparr>"
proof -
  obtain e12 where e12: "calculateEMA (map Fin closes) 12 = Some (Fin e12)"
    using calculateEMA_finite [of 12 closes] assms(1) by auto
  obtain e26 where e26: "calculateEMA (map Fin closes) 26 = Some (Fin e26)"
    using calculateEMA_finite [of 26 closes] assms(1) by auto
  have "length (macd_values (map Fin closes)) < 9"
    using assms by (simp add: length_macd_values)
  then have "calculateEMA (macd_values (map Fin closes)) 9 = None"
    by (simp add: calculateEMA_def)
  then have "calculateMACD (map Fin closes)
      = Some \<lparr>macd = Fin (e12 - e26), signal = Fin (e12 - e26), histogram = Fin 0\<rparr>"
    by (simp add: calculateMACD_def e12 e26 or_else_def Let_def)
  with e12 e26 show ?thesis by blast
qed

text \<open>C3 on the 26 closes 1, 2, \<dots>, 26.\<close>

theorem C3_macd_short_history_witness:
  "26 \<le> length closes_1_to_26 \<and> length closes_1_to_26 < 35
   \<and> (\<exists>e12 e26.
           calculateEMA (map Fin closes_1_to_26) 12 = Some (Fin e12)
           \<and> calculateEMA (map Fin closes_1_to_26) 26 = Some (Fin e26)
           \<and> calculateMACD (map Fin closes_1_to_26)
               = Some \<lparr>macd = Fin (e12 - e26), signal = Fin (e12 - e26), histogram = Fin 0\<rparr>)"
proof -
  have h1: "26 \<le> length closes_1_to_26" by (simp add: closes_1_to_26_def)
  have h2: "length closes_1_to_26 < 35" by (simp add: closes_1_to_26_def)
  show ?thesis using h1 h2 C3_macd_short_history [OF h1 h2] by simp
qed

text \<open>
  C3, as the specification states it (the signal and the histogram are absent), fails on
  those 26 closes: the result is a record whose signal is the substitute 7, the MACD
  line, and whose histogram is the number 0.
\<close>

theorem C3_counterexample:
  "calculateMACD (map Fin closes_1_to_26)
     = Some \<lparr>macd = Fin 7, signal = Fin 7, histogram = Fin 0\<rparr>"
proof -
  have "map Fin closes_1_to_26 = linear_closes 1 1 26"
    by (simp add: closes_1_to_26_def linear_closes_def)
  moreover have "calculateEMA (macd_values (linear_closes 1 1 26)) 9 = None"
    by (simp add: calculateEMA_def length_macd_values)
  ultimately show ?thesis
    by (simp add: calculateMACD_def calculateEMA_linear or_else_def Let_def)
qed

section \<open>The drawdown series\<close>

lemma length_drawdown_loop [simp]: "length (drawdown_loop peak curve) = length curve"
  by (induction curve arbitrary: peak) (simp_all add: Let_def)

lemma drawdown_loop_nth:
  assumes "0 < pk" and "map equity curve = map Fin es" and "i < length es"
  shows "\<exists>d. drawdown (drawdown_loop (Fin pk) curve ! i) = Some (Fin d) \<and> d \<le> 0
           \<and> (pk \<le> es ! i \<and> (\<forall>j<i. es ! j \<le> es ! i) \<longrightarrow> d = 0)"
  using assms
proof (induction curve arbitrary: pk es i)
  case Nil
  then show ?case by simp
next
  case (Cons point rest)
  then obtain e es' where es: "es = e # es'" and e: "equity point = Fin e"
    and rest: "map equity rest = map Fin es'"
    by (cases es) auto
  define pk' where "pk' = (if pk < e then e else pk)"
  have pk': "0 < pk'" "pk \<le> pk'" "e \<le> pk'"
    using Cons.prems(1) by (simp_all add: pk'_def)
  have peak: "(if js_gt (equity point) (Fin pk) then equity point else Fin pk) = Fin pk'"
    by (simp add: e pk'_def)
  have dd: "((Fin e - Fin pk') / Fin pk') * Fin 100 = Fin ((e - pk') / pk' * 100)"
    using pk'(1) by simp
  have "drawdown_loop (Fin pk) (point # rest)
      = point\<lparr>drawdown := Some (((equity point - Fin pk') / Fin pk') * Fin 100)\<rparr>
        # drawdown_loop (Fin pk') rest"
    by (simp only: drawdown_loop.simps Let_def peak)
  then have step: "drawdown_loop (Fin pk) (point # rest)
      = point\<lparr>drawdown := Some (Fin ((e - pk') / pk' * 100))\<rparr> # drawdown_loop (Fin pk') rest"
    by (simp only: e dd)
  show ?case
  proof (cases i)
    case 0
    have "(e - pk') / pk' * 100 \<le> 0"
      using pk' by (simp add: divide_le_0_iff mult_le_0_iff)
    moreover have "pk \<le> e \<Longrightarrow> (e - pk') / pk' * 100 = 0"
      by (simp add: pk'_def)
    ultimately show ?thesis using 0 es by (simp add: step del: drawdown_loop.simps)
  next
    case (Suc i')
    then have i': "i' < length es'" using Cons.prems(3) es by simp
    obtain d where d: "drawdown (drawdown_loop (Fin pk') rest ! i') = Some (Fin d)" "d \<le> 0"
      "pk' \<le> es' ! i' \<and> (\<forall>j<i'. es' ! j \<le> es' ! i') \<longrightarrow> d = 0"
      using Cons.IH [OF pk'(1) rest i'] by blast
    have "d = 0" if a: "pk \<le> es ! i" and b: "\<forall>j<i. es ! j \<le> es ! i"
    proof -
      have "e \<le> es' ! i'" using b Suc es by auto
      moreover have "pk \<le> es' ! i'" using a Suc es by simp
      ultimately have "pk' \<le> es' ! i'" by (simp add: pk'_def)
      moreover have "\<forall>j<i'. es' ! j \<le> es' ! i'"
        using b Suc es by auto
      ultimately show ?thesis using d(3) by blast
    qed
    then show ?thesis using d(1,2) Suc by (simp add: step del: drawdown_loop.simps)
  qed
qed

text \<open>
  C4, as the code has it: for a non-empty equity curve of finite equities whose first
  equity is positive, every point of \<^verbatim>\<open>calculateDrawdownSeries\<close> has a drawdown \<open>\<le> 0\<close>,
  and the drawdown is 0 at the first point and at every index whose equity is at least
  every earlier equity.
\<close>

theorem C4_drawdown_nonpositive:
  assumes "map equity curve = map Fin es" and "es \<noteq> []" and "0 < hd es" and "i < length es"
  shows "\<exists>d. drawdown (calculateDrawdownSeries curve ! i) = Some (Fin d) \<and> d \<le> 0
           \<and> ((\<forall>j<i. es ! j \<le> es ! i) \<longrightarrow> d = 0)"
proof -
  obtain point rest where curve: "curve = point # rest"
    using assms(1,2) by (cases curve) auto
  then have first: "equity point = Fin (hd es)"
    using assms(1,2) by (cases es) auto
  have series: "calculateDrawdownSeries curve = drawdown_loop (Fin (hd es)) curve"
    by (simp add: calculateDrawdownSeries_def curve first)
  obtain d where d: "drawdown (drawdown_loop (Fin (hd es)) curve ! i) = Some (Fin d)" "d \<le> 0"
      "hd es \<le> es ! i \<and> (\<forall>j<i. es ! j \<le> es ! i) \<longrightarrow> d = 0"
    using drawdown_loop_nth [OF assms(3) assms(1) assms(4)] by blast
  have "hd es \<le> es ! i" if "\<forall>j<i. es ! j \<le> es ! i"
  proof (cases i)
    case 0
    then show ?thesis using assms(2) by (simp add: hd_conv_nth)
  next
    case (Suc i')
    then show ?thesis using that assms(2) by (auto simp add: hd_conv_nth)
  qed
  then show ?thesis using d by (auto simp add: series)
qed

text \<open>C4 on the curve 100, 110, 100, 105, 120, at the last index, a new maximum: the
  drawdown there is 0.\<close>

theorem C4_drawdown_nonpositive_witness:
  "drawdown (calculateDrawdownSeries curve5 ! 4) = Some (Fin 0)"
proof -
  have h1: "map equity curve5 = map Fin [100, 110, 100, 105, 120]"
    by (simp add: curve5_def equity_point_def)
  have h2: "[100, 110, 100, 105, 120] \<noteq> ([] :: real list)" by simp
  have h3: "0 < hd [100, 110, 100, 105, 120 :: real]" by simp
  have h4: "4 < length [100, 110, 100, 105, 120 :: real]" by simp
  have h5: "\<forall>j<4. [100, 110, 100, 105, 120] ! j \<le> [100, 110, 100, 105, 120 :: real] ! 4"
    by (simp add: numeral_eq_Suc All_less_Suc)
  show ?thesis
    using C4_drawdown_nonpositive [OF h1 h2 h3 h4] h5 by auto
qed

text \<open>
  C4, as the specification states it (for every non-empty equity curve), fails where the
  running peak is not positive: on the curve -100, -200 the second drawdown is +100, and
  on the one-point curve 0 the first drawdown is \<^verbatim>\<open>NaN\<close>, not 0.
\<close>

theorem C4_counterexample:
  "map drawdown (calculateDrawdownSeries
      [equity_point ''2023-01-01'' (- 100), equity_point ''2023-01-02'' (- 200)])
     = [Some (Fin 0), Some (Fin 100)]
   \<and> map drawdown (calculateDrawdownSeries [equity_point ''2023-01-01'' 0]) = [Some NaN]"
  by (simp add: calculateDrawdownSeries_def equity_point_def inf_of_sign_def)

section \<open>The best strategy of a metric\<close>














section \<open>The diversification score\<close>












section \<open>Portfolio totals\<close>

lemma foldl_plus_field:
  assumes "map f ps = map Fin rs"
  shows "foldl (\<lambda>sum p. sum + f p) (Fin s) ps = Fin (s + sum_list rs)"
  using assms
proof (induction ps arbitrary: s rs)
  case Nil
  then show ?case by simp
next
  case (Cons p ps)
  then obtain r rs' where rs: "rs = r # rs'" and r: "f p = Fin r" and rest: "map f ps = map Fin rs'"
    by (cases rs) auto
  show ?case
    using Cons.IH [OF rest, of "s + r"] by (simp add: rs r add.assoc)
qed

text \<open>
  C7, as the code has it: for positions with finite market values and finite unrealized
  P&L, \<^verbatim>\<open>calculatePortfolioMetrics\<close> returns the sum of the market values as the total
  value and the sum of the unrealized P&L as the total P&L; the P&L percent is
  \<open>totalPnL / (totalValue - totalPnL) * 100\<close> when the total value is positive and differs
  from the total P&L, and it is 0 whenever the total value is not positive (the guard is
  \<^verbatim>\<open>totalValue > 0\<close>).
\<close>

theorem C7_portfolio_metrics:
  assumes "map marketValue positions = map Fin mvs"
    and "map unrealizedPnL positions = map Fin pnls"
  shows "totalValue (calculatePortfolioMetrics positions) = Fin (sum_list mvs)
       \<and> totalPnL (calculatePortfolioMetrics positions) = Fin (sum_list pnls)
       \<and> (0 < sum_list mvs \<longrightarrow> sum_list mvs \<noteq> sum_list pnls \<longrightarrow>
            totalPnLPercent (calculatePortfolioMetrics positions)
              = Fin (sum_list pnls / (sum_list mvs - sum_list pnls) * 100))
       \<and> (sum_list mvs \<le> 0 \<longrightarrow> totalPnLPercent (calculatePortfolioMetrics positions) = Fin 0)"
proof -
  have tv: "foldl (\<lambda>sum p. sum + marketValue p) (Fin 0) positions = Fin (sum_list mvs)"
    using foldl_plus_field [OF assms(1), of 0] by simp
  have tp: "foldl (\<lambda>sum p. sum + unrealizedPnL p) (Fin 0) positions = Fin (sum_list pnls)"
    using foldl_plus_field [OF assms(2), of 0] by simp
  show ?thesis
    by (simp add: calculatePortfolioMetrics_def Let_def tv tp)
qed

text \<open>C7 on one position worth 11000 with a gain of 1000 (a cost of 10000, so 10 percent),
  and on no position.\<close>

theorem C7_portfolio_metrics_witness:
  "totalValue (calculatePortfolioMetrics [\<lparr>marketValue = Fin 11000, unrealizedPnL = Fin 1000\<rparr>]) = Fin 11000
   \<and> totalPnL (calculatePortfolioMetrics [\<lparr>marketValue = Fin 11000, unrealizedPnL = Fin 1000\<rparr>]) = Fin 1000
   \<and> totalPnLPercent (calculatePortfolioMetrics [\<lparr>marketValue = Fin 11000, unrealizedPnL = Fin 1000\<rparr>]) = Fin 10
   \<and> totalPnLPercent (calculatePortfolioMetrics []) = Fin 0"
proof -
  have h1: "map marketValue [\<lparr>marketValue = Fin 11000, unrealizedPnL = Fin 1000\<rparr>] = map Fin [11000]"
    by simp
  have h2: "map unrealizedPnL [\<lparr>marketValue = Fin 11000, unrealizedPnL = Fin 1000\<rparr>] = map Fin [1000]"
    by simp
  have h3: "map marketValue [] = map Fin []" by simp
  have h4: "map unrealizedPnL [] = map Fin []" by simp
  show ?thesis
    using C7_portfolio_metrics [OF h1 h2] C7_portfolio_metrics [OF h3 h4] by simp
qed

text \<open>
  C7, as the specification states it, fails twice. One position whose market value equals
  its unrealized P&L (a cost basis of zero) has the P&L percent \<^verbatim>\<open>Infinity\<close>, not a finite
  value. And a negative total value, which is not zero, yields 0 and not the formula.
\<close>

theorem C7_counterexample:
  "calculatePortfolioMetrics [\<lparr>marketValue = Fin 100, unrealizedPnL = Fin 100\<rparr>]
     = \<lparr>totalValue = Fin 100, totalPnL = Fin 100, totalPnLPercent = PosInf\<rparr>
   \<and> calculatePortfolioMetrics [\<lparr>marketValue = Fin (- 100), unrealizedPnL = Fin 10\<rparr>]
     = \<lparr>totalValue = Fin (- 100), totalPnL = Fin 10, totalPnLPercent = Fin 0\<rparr>"
  by (simp add: calculatePortfolioMetrics_def inf_of_sign_def Let_def)

section \<open>Rolling volatility and Sharpe ratio\<close>

lemma window_returns_simple: "window_returns sl = simple_returns (map equity sl)"
proof (induction sl rule: induct_list012)
  case 1
  show ?case by (simp add: window_returns_def)
next
  case (2 p)
  show ?case by (simp add: window_returns_def)
next
  case (3 p q rest)
  then show ?case by (simp add: window_returns_def)
qed

lemma foldl_squares:
  "foldl (\<lambda>sum r. sum + Math_pow (r - m) 2) s xs
     = foldl (\<lambda>a b. a + b) s (map (\<lambda>x. Math_pow (x - m) 2) xs)"
  by (induction xs arbitrary: s) simp_all

lemma sum_squares_reduce:
  "foldl (\<lambda>sum r. sum + Math_pow (r - m) 2) (Fin 0) xs
     = sum_reduce (map (\<lambda>x. Math_pow (x - m) 2) xs)"
  by (simp only: sum_reduce_def foldl_squares)

lemma rolling_entry_spec:
  assumes "window \<le> i"
  shows "rolling_entry curve window i =
     (let returns = simple_returns (map equity (take window (drop (i - window) curve)));
          vol = population_stddev returns * Math_sqrt (Fin 252) * Fin 100
      in \<lparr>metric_date = date (curve ! i),
          sharpe = (if js_gt vol (Fin 0) then (mean returns * Fin 252) / (vol / Fin 100) else Fin 0),
          volatility = vol\<rparr>)"
proof -
  have sl: "slice curve (i - window) i = take window (drop (i - window) curve)"
    using assms by (simp add: slice_def)
  show ?thesis
    by (simp add: rolling_entry_def sl window_returns_simple Let_def mean_def
          population_stddev_def sum_squares_reduce)
qed

text \<open>
  C8, as the code has it: \<^verbatim>\<open>calculateRollingMetrics\<close> returns the empty sequence when the
  curve has fewer than \<open>window\<close> points; otherwise it has one entry per index
  \<open>i \<ge> window\<close>, dated at that index, whose volatility is the population standard
  deviation of the simple returns over the \<open>window\<close> points before that index, times
  \<open>sqrt 252\<close>, times 100, and whose Sharpe ratio is
  \<open>(mean returns * 252) / (volatility / 100)\<close> when the volatility is greater than 0, and 0
  otherwise (also when the volatility is \<^verbatim>\<open>NaN\<close>).
\<close>

theorem C8_rolling_metrics:
  "(length curve < window \<longrightarrow> calculateRollingMetrics curve window = [])
   \<and> (window \<le> length curve \<longrightarrow>
        length (calculateRollingMetrics curve window) = length curve - window
        \<and> (\<forall>k<length curve - window.
              let returns = simple_returns (map equity (take window (drop k curve)));
                  vol = population_stddev returns * Math_sqrt (Fin 252) * Fin 100;
                  entry = calculateRollingMetrics curve window ! k
              in metric_date entry = date (curve ! (window + k))
                 \<and> volatility entry = vol
                 \<and> sharpe entry =
                      (if js_gt vol (Fin 0) then (mean returns * Fin 252) / (vol / Fin 100)
                       else Fin 0)))"
proof -
  have "calculateRollingMetrics curve window ! k = rolling_entry curve window (window + k)"
    if "window \<le> length curve" "k < length curve - window" for k
    using that by (simp add: calculateRollingMetrics_def)
  moreover have "length (calculateRollingMetrics curve window) = length curve - window"
    if "window \<le> length curve"
    using that by (simp add: calculateRollingMetrics_def)
  ultimately show ?thesis
    by (simp add: rolling_entry_spec Let_def) (simp add: calculateRollingMetrics_def)
qed

text \<open>C8 on the curve 100, 110, 121 with a window of 2: one entry, at the third point, from
  the single return 0.1, with the volatility 0 and the Sharpe ratio 0; and on the first
  point alone: no entry.\<close>

theorem C8_rolling_metrics_witness:
  "calculateRollingMetrics (take 1 curve3) 2 = []
   \<and> length (calculateRollingMetrics curve3 2) = 1
   \<and> metric_date (calculateRollingMetrics curve3 2 ! 0) = ''2023-01-03''
   \<and> volatility (calculateRollingMetrics curve3 2 ! 0) = Fin 0
   \<and> sharpe (calculateRollingMetrics curve3 2 ! 0) = Fin 0"
proof -
  have len: "length curve3 = 3" by (simp add: curve3_def)
  have r: "simple_returns (map equity (take 2 (drop 0 curve3))) = [Fin (1 / 10)]"
    by (simp add: curve3_def equity_point_def)
  have v: "population_stddev [Fin (1 / 10)] * Math_sqrt (Fin 252) * Fin 100 = Fin 0"
    by (simp add: population_stddev_def mean_def sum_reduce_def numeral_2_eq_2)
  have d: "date (curve3 ! (2 + 0)) = ''2023-01-03''"
    by (simp add: curve3_def equity_point_def)
  have short: "calculateRollingMetrics (take 1 curve3) 2 = []"
    using C8_rolling_metrics [of "take 1 curve3" 2] by (simp add: len)
  have long: "length (calculateRollingMetrics curve3 2) = length curve3 - 2"
    and each: "\<forall>k<length curve3 - 2.
              let returns = simple_returns (map equity (take 2 (drop k curve3)));
                  vol = population_stddev returns * Math_sqrt (Fin 252) * Fin 100;
                  entry = calculateRollingMetrics curve3 2 ! k
              in metric_date entry = date (curve3 ! (2 + k))
                 \<and> volatility entry = vol
                 \<and> sharpe entry =
                      (if js_gt vol (Fin 0) then (mean returns * Fin 252) / (vol / Fin 100)
                       else Fin 0)"
    using C8_rolling_metrics [of curve3 2] by (simp_all only: len) simp_all
  have "0 < length curve3 - 2" by (simp add: len)
  then have "let returns = simple_returns (map equity (take 2 (drop 0 curve3)));
                  vol = population_stddev returns * Math_sqrt (Fin 252) * Fin 100;
                  entry = calculateRollingMetrics curve3 2 ! 0
              in metric_date entry = date (curve3 ! (2 + 0))
                 \<and> volatility entry = vol
                 \<and> sharpe entry =
                      (if js_gt vol (Fin 0) then (mean returns * Fin 252) / (vol / Fin 100)
                       else Fin 0)"
    using each by blast
  then have "metric_date (calculateRollingMetrics curve3 2 ! 0) = ''2023-01-03''
      \<and> volatility (calculateRollingMetrics curve3 2 ! 0) = Fin 0
      \<and> sharpe (calculateRollingMetrics curve3 2 ! 0) = Fin 0"
    unfolding Let_def r v d by simp
  then show ?thesis using short long len by simp
qed

text \<open>
  C8, as the specification states it (the Sharpe ratio is 0 when the volatility is 0, and
  the quotient otherwise), fails where the volatility is \<^verbatim>\<open>NaN\<close>: with a window of 1 there
  is no return, and with a first equity of 0 the return is infinite; in both cases the
  volatility is \<^verbatim>\<open>NaN\<close>, which is not equal to 0, the quotient is \<^verbatim>\<open>NaN\<close>, and the code
  returns the Sharpe ratio 0.
\<close>

theorem C8_counterexample:
  "calculateRollingMetrics [equity_point ''2023-01-01'' 100, equity_point ''2023-01-02'' 100] 1
     = [\<lparr>metric_date = ''2023-01-02'', sharpe = Fin 0, volatility = NaN\<rparr>]
   \<and> \<not> js_eq NaN (Fin 0)
   \<and> (mean [] * Fin 252) / (NaN / Fin 100) = NaN
   \<and> calculateRollingMetrics
        [equity_point ''2023-01-01'' 0, equity_point ''2023-01-02'' 100,
         equity_point ''2023-01-03'' 100] 2
     = [\<lparr>metric_date = ''2023-01-03'', sharpe = Fin 0, volatility = NaN\<rparr>]
   \<and> (mean [PosInf] * Fin 252) / (NaN / Fin 100) = NaN"
  by (simp add: calculateRollingMetrics_def rolling_entry_def slice_def window_returns_def
        sum_reduce_def mean_def js_eq_def inf_of_sign_def equity_point_def Let_def
        minus_number_def numeral_2_eq_2)

section \<open>The histogram of trade outcomes\<close>

text \<open>
  C9 at two closed trades with the P&L percents 0 and 20: both count as closed trades with
  a defined P&L percent, and \<^verbatim>\<open>analyzeTradeDistribution\<close> builds 20 bins of width 1 from 0,
  all tagged positive; but every bin is the half-open interval \<open>[start, start + binSize)\<close>,
  so the maximum 20 lies in no bin and the counts sum to 1, not to 2. On a single closed
  trade the width is 0 and every count is 0.
\<close>

theorem C9_histogram_drops_maximum:
  "length (filter (\<lambda>t. status t = Closed \<and> pnlPercent t \<noteq> None)
             [closed_trade ''1'' 0, closed_trade ''2'' 20]) = 2
   \<and> map count (bins (analyzeTradeDistribution toFixed [closed_trade ''1'' 0, closed_trade ''2'' 20]))
       = [1, 0, 0, 0, 0, 0, 0, 0, 0, 0, 0, 0, 0, 0, 0, 0, 0, 0, 0, 0]
   \<and> map isPositive (bins (analyzeTradeDistribution toFixed [closed_trade ''1'' 0, closed_trade ''2'' 20]))
       = replicate 20 True
   \<and> map count (bins (analyzeTradeDistribution toFixed [closed_trade ''1'' 10]))
       = replicate 20 0"
  by (simp add: analyzeTradeDistribution_def closed_trade_def pnl_or_zero_def or_else_def
        Math_min_def Math_max_def make_bin_def js_ge_def js_lt_def js_eq_def Let_def upt_rec
        numeral_eq_Suc)

end
